theory Spec2Isabelle
  imports Complex_Main
begin

section \<open>Python values, exceptions and the song object\<close>

text \<open>
  The exceptions the modelled functions can raise. A function that can raise returns
  \<open>exn + 'a\<close>, with \<open>Inl\<close> for the exception, next to the state it leaves behind.
\<close>

datatype exn =
    FileExistsError
  | FileNotFoundError
  | KeyError int
  | ValueError
  | AttributeError
  | TypeError

definition bind_exn :: "exn + 'a \<Rightarrow> ('a \<Rightarrow> exn + 'b) \<Rightarrow> exn + 'b" where
  "bind_exn m f = (case m of Inl e \<Rightarrow> Inl e | Inr x \<Rightarrow> f x)"

text \<open>
  \<^verbatim>\<open>class Song\<close> of \<^verbatim>\<open>objects/song.py\<close>. The attribute \<^verbatim>\<open>id\<close> is \<open>id_song\<close> and
  \<^verbatim>\<open>size\<close> is \<open>size_song\<close> (both names are taken in HOL). The float \<^verbatim>\<open>size\<close> is
  carried as the real number it denotes; it is only stored and passed on.
\<close>

record song =
  id_song :: int
  title :: string
  author_id :: int
  author_name :: string
  size_song :: real
  author_yt :: string
  url :: string

text \<open>\<^verbatim>\<open>Song.__init__\<close>: the placeholder attributes.\<close>

definition Song_init :: song where
  "Song_init =
     \<lparr>id_song = - 1, title = [], author_id = 0, author_name = [], size_song = 0,
      author_yt = [], url = []\<rparr>"

text \<open>
  A row of the table \<^verbatim>\<open>songs\<close> in the positional order of the query of
  \<^verbatim>\<open>Song.from_sql\<close>: id, title, author_id, author_name, size, author_yt, download.
\<close>

type_synonym song_row = "int \<times> string \<times> int \<times> string \<times> real \<times> string \<times> string"

section \<open>The level object\<close>

text \<open>
  Modelled from the spec: \<^verbatim>\<open>objects/user.py\<close> is not part of the sources read here.
  User-account objects are external collaborators; the level code reads only the
  identifier of the creator.
\<close>

record user =
  id_user :: int

text \<open>
  What the attribute \<^verbatim>\<open>song\<close> of a level can hold: a \<^verbatim>\<open>Song\<close> object, \<^verbatim>\<open>None\<close>
  (what \<^verbatim>\<open>Song.from_id\<close> returns for an unknown song), or the coroutine object that
  \<^verbatim>\<open>Level.update\<close> stores when it calls \<^verbatim>\<open>Song.from_id(song_id)\<close> without awaiting
  it. The coroutine never runs; it is identified by its argument.
\<close>

datatype song_ref =
    SongObj song
  | SongNone
  | SongCoroutine int

text \<open>
  \<^verbatim>\<open>class Level\<close> of \<^verbatim>\<open>objects/level.py\<close>. \<^verbatim>\<open>id\<close> is \<open>id_level\<close>, \<^verbatim>\<open>length\<close> is
  \<open>length_level\<close> and the private \<^verbatim>\<open>_cache\<close> is \<open>cache_str\<close>. The enumerations of
  \<^verbatim>\<open>const\<close> are integers.
\<close>

record level =
  id_level :: int
  name :: string
  creator :: "user option"
  comments :: "string list"
  description :: string
  song :: song_ref
  track_id :: int
  level_version :: int
  length_level :: int
  dual :: bool
  unlisted :: bool
  extra_str :: string
  replay :: string
  game_version :: int
  binary_version :: int
  timestamp :: int
  likes :: int
  downloads :: int
  stars :: int
  difficulty :: int
  demon_diff :: int
  coins :: int
  coins_verified :: bool
  requested_stars :: int
  feature_id :: int
  rate_status :: int
  ldm :: bool
  objects :: int
  password :: int
  working_time :: int
  cache_str :: string

text \<open>
  A row of the table \<^verbatim>\<open>levels\<close>, one field per column that \<^verbatim>\<open>Level.from_sql\<close>
  selects, under the column's name. The flag columns are integers in the store.
\<close>

record level_row =
  col_id :: int
  col_name :: string
  col_user_id :: int
  col_description :: string
  col_song_id :: int
  col_extra_str :: string
  col_replay :: string
  col_game_version :: int
  col_binary_version :: int
  col_timestamp :: int
  col_downloads :: int
  col_likes :: int
  col_stars :: int
  col_difficulty :: int
  col_demon_diff :: int
  col_coins :: int
  col_coins_verified :: int
  col_requested_stars :: int
  col_featured_id :: int
  col_rate_status :: int
  col_ldm :: int
  col_objects :: int
  col_password :: int
  col_working_time :: int
  col_level_ver :: int
  col_track_id :: int
  col_length :: int
  col_duals :: int
  col_unlisted :: int

text \<open>
  The nineteen values \<^verbatim>\<open>Level.insert\<close> passes to \<^verbatim>\<open>glob.sql.execute\<close>, in the order
  of the tuple in the source. Each field is named after the column at the same position
  in the column list of the statement.
\<close>

record insert_params =
  p_name :: string
  p_user_id :: int
  p_description :: string
  p_song_id :: int
  p_replay :: string
  p_game_version :: int
  p_binary_version :: int
  p_timestamp :: int
  p_coins :: int
  p_requested_stars :: int
  p_ldm :: int
  p_objects :: int
  p_password :: int
  p_working_time :: int
  p_level_ver :: int
  p_track_id :: int
  p_length :: int
  p_duals :: int
  p_unlisted :: int

section \<open>The collaborators: caches, store, catalog, files\<close>

text \<open>
  A payload location \<^verbatim>\<open>f"{conf.dir_levels}/{self.id}"\<close> is kept as the pair of the
  configured directory and the identifier it is formatted from.
\<close>

type_synonym fpath = "string \<times> int"

text \<open>
  The calls made to the collaborators, in the order they are made: what a test double of
  the cache, the store, the catalogue client, the logger or the file store would record.
\<close>

datatype event =
    CacheGet_song int
  | CacheSet_song int
  | CacheGet_level int
  | CacheSet_level int
  | Fetchone_songs int
  | Fetchone_levels int
  | Execute_insert_song "int option"
  | Execute_insert_level nat insert_params
  | PostRequest int
  | LogError int
  | LogDebug string
  | UserFromId int
  | PathExists fpath
  | FileRead fpath
  | FileWrite fpath

text \<open>
  Everything outside the objects: the two caches of \<^verbatim>\<open>glob\<close>, the tables behind
  \<^verbatim>\<open>glob.sql\<close> with their auto-increment counters, the answer of the Boomlings catalogue
  for each song identifier, the files of the level directory, the clock and the record of
  calls.
\<close>

record world =
  song_cache :: "int \<rightharpoonup> song"
  level_cache :: "int \<rightharpoonup> level"
  sql_songs :: "song_row list"
  sql_levels :: "level_row list"
  autoinc_songs :: int
  autoinc_levels :: int
  boomlings :: "int \<Rightarrow> string"
  files :: "fpath \<rightharpoonup> string"
  now :: int
  calls :: "event list"

text \<open>
  The parts the sources use without defining them: \<^verbatim>\<open>is_numeric\<close> (imported from
  \<^verbatim>\<open>helpers.common\<close>, which does not define it), \<^verbatim>\<open>parse_to_dict\<close> of
  \<^verbatim>\<open>utils.gdform\<close>, Python's \<^verbatim>\<open>int\<close> and \<^verbatim>\<open>float\<close> on strings (\<open>None\<close> where they
  raise \<^verbatim>\<open>ValueError\<close>), \<^verbatim>\<open>sys.getsizeof\<close>, \<^verbatim>\<open>conf.dir_levels\<close>, \<^verbatim>\<open>User()\<close>,
  \<^verbatim>\<open>User.from_id\<close>, \<^verbatim>\<open>Difficulty.NA\<close>, and what the store adapter does with the
  statement of \<^verbatim>\<open>Level.insert\<close>: given the number of \<^verbatim>\<open>%s\<close> markers in the text of the
  statement and the values passed with it, it raises or it gives the row it writes. They
  are parameters of the model.
\<close>

record deps =
  is_numeric :: "string \<Rightarrow> bool"
  parse_to_dict :: "string \<Rightarrow> (int \<rightharpoonup> string)"
  py_int :: "string \<Rightarrow> int option"
  py_float :: "string \<Rightarrow> real option"
  getsizeof :: "string \<Rightarrow> nat"
  dir_levels :: string
  User_new :: user
  users :: "int \<rightharpoonup> user"
  Difficulty_NA :: int
  levels_adapter :: "nat \<Rightarrow> insert_params \<Rightarrow> exn + level_row"

definition record_call :: "event \<Rightarrow> world \<Rightarrow> world" where
  "record_call e w = w\<lparr>calls := calls w @ [e]\<rparr>"

text \<open>
  Modelled from the spec: the cache class behind \<^verbatim>\<open>glob.song_cache\<close> and
  \<^verbatim>\<open>glob.level_cache\<close> is not part of the sources read here. \<^verbatim>\<open>get(id)\<close> returns the
  stored entity or the absence signal; \<^verbatim>\<open>cache(id, entity)\<close> stores or overwrites the
  entry for \<^verbatim>\<open>id\<close>, unconditionally.
\<close>

definition song_cache_get :: "int \<Rightarrow> world \<Rightarrow> song option \<times> world" where
  "song_cache_get k w = (song_cache w k, record_call (CacheGet_song k) w)"

definition song_cache_cache :: "int \<Rightarrow> song \<Rightarrow> world \<Rightarrow> world" where
  "song_cache_cache k s w = record_call (CacheSet_song k) (w\<lparr>song_cache := (song_cache w)(k \<mapsto> s)\<rparr>)"

definition level_cache_get :: "int \<Rightarrow> world \<Rightarrow> level option \<times> world" where
  "level_cache_get k w = (level_cache w k, record_call (CacheGet_level k) w)"

definition level_cache_cache :: "int \<Rightarrow> level \<Rightarrow> world \<Rightarrow> world" where
  "level_cache_cache k l w = record_call (CacheSet_level k) (w\<lparr>level_cache := (level_cache w)(k \<mapsto> l)\<rparr>)"

text \<open>
  Modelled from the spec: the store adapter behind \<^verbatim>\<open>glob.sql\<close> is not part of the
  sources read here. \<^verbatim>\<open>fetchone\<close> returns the first row with the identifier or none;
  \<^verbatim>\<open>execute\<close> adds the row and returns its generated identifier: the identifier given,
  or the table's next automatic one where none is given. The statement of
  \<^verbatim>\<open>Song.insert\<close> has seven columns, seven markers and seven values; the statement of
  \<^verbatim>\<open>Level.insert\<close>, whose markers do not match its values, is treated apart.
\<close>

definition fetchone_songs :: "int \<Rightarrow> world \<Rightarrow> song_row option \<times> world" where
  "fetchone_songs k w =
     (find (\<lambda>r. fst r = k) (sql_songs w), record_call (Fetchone_songs k) w)"

definition fetchone_levels :: "int \<Rightarrow> world \<Rightarrow> level_row option \<times> world" where
  "fetchone_levels k w =
     (find (\<lambda>r. col_id r = k) (sql_levels w), record_call (Fetchone_levels k) w)"

definition execute_insert_song ::
  "int option \<times> string \<times> int \<times> string \<times> real \<times> string \<times> string \<Rightarrow> world \<Rightarrow> int \<times> world" where
  "execute_insert_song params w =
     (case params of (ido, rest) \<Rightarrow>
        (case ido of
           Some i \<Rightarrow>
             (i, record_call (Execute_insert_song ido)
                   (w\<lparr>sql_songs := sql_songs w @ [(i, rest)]\<rparr>))
         | None \<Rightarrow>
             (autoinc_songs w, record_call (Execute_insert_song ido)
                   (w\<lparr>sql_songs := sql_songs w @ [(autoinc_songs w, rest)],
                      autoinc_songs := autoinc_songs w + 1\<rparr>))))"

text \<open>
  \<^verbatim>\<open>execute\<close> for the statement of \<^verbatim>\<open>Level.insert\<close>. The call is recorded with the
  number of markers of the statement and the values passed. The adapter decides what
  becomes of it: where it raises, nothing is written; where it gives a row, the row is
  added under the table's next automatic identifier, which is returned.
\<close>

definition execute_insert_level ::
  "deps \<Rightarrow> nat \<Rightarrow> insert_params \<Rightarrow> world \<Rightarrow> (exn + int) \<times> world" where
  "execute_insert_level d markers params w =
     (case levels_adapter d markers params of
        Inl e \<Rightarrow> (Inl e, record_call (Execute_insert_level markers params) w)
      | Inr row \<Rightarrow>
          (Inr (autoinc_levels w), record_call (Execute_insert_level markers params)
             (w\<lparr>sql_levels := sql_levels w @ [row\<lparr>col_id := autoinc_levels w\<rparr>],
                autoinc_levels := autoinc_levels w + 1\<rparr>)))"

text \<open>
  Modelled from the spec: \<^verbatim>\<open>web.client.post_request\<close> and the logger are not part of
  the sources read here. The request returns the body the catalogue holds for the song
  identifier; \<^verbatim>\<open>error\<close> is recorded with the identifier it reports and \<^verbatim>\<open>debug\<close> with
  the body.
\<close>

definition post_request :: "int \<Rightarrow> world \<Rightarrow> string \<times> world" where
  "post_request k w = (boomlings w k, record_call (PostRequest k) w)"

definition log_error :: "int \<Rightarrow> world \<Rightarrow> world" where
  "log_error k w = record_call (LogError k) w"

definition log_debug :: "string \<Rightarrow> world \<Rightarrow> world" where
  "log_debug s w = record_call (LogDebug s) w"

text \<open>
  Modelled from the spec: \<^verbatim>\<open>User.from_id\<close> and \<^verbatim>\<open>helpers.time.get_timestamp\<close> are
  not part of the sources read here. The user resolver is a lookup; the timestamp is the
  reading of the clock.
\<close>

definition User_from_id :: "deps \<Rightarrow> int \<Rightarrow> world \<Rightarrow> user option \<times> world" where
  "User_from_id d k w = (users d k, record_call (UserFromId k) w)"

definition get_timestamp :: "world \<Rightarrow> int" where
  "get_timestamp w = now w"

section \<open>Song resolution and persistence\<close>

text \<open>\<^verbatim>\<open>Song.from_sql\<close>: the row of the store as a song, or \<open>None\<close>.\<close>

definition Song_from_sql :: "int \<Rightarrow> world \<Rightarrow> song option \<times> world" where
  "Song_from_sql sid w =
     (case fetchone_songs sid w of (song_db, w1) \<Rightarrow>
        (case song_db of
           None \<Rightarrow> (None, w1)
         | Some (c_id, c_title, c_author_id, c_author_name, c_size, c_author_yt, c_download) \<Rightarrow>
             (Some \<lparr>id_song = c_id, title = c_title, author_id = c_author_id,
                    author_name = c_author_name, size_song = c_size,
                    author_yt = c_author_yt, url = c_download\<rparr>, w1)))"

text \<open>\<^verbatim>\<open>parsed_resp[k]\<close>: a missing key raises \<^verbatim>\<open>KeyError\<close>.\<close>

definition getitem :: "(int \<rightharpoonup> string) \<Rightarrow> int \<Rightarrow> exn + string" where
  "getitem m k = (case m k of None \<Rightarrow> Inl (KeyError k) | Some v \<Rightarrow> Inr v)"

definition int_of_str :: "deps \<Rightarrow> string \<Rightarrow> exn + int" where
  "int_of_str d s = (case py_int d s of None \<Rightarrow> Inl ValueError | Some i \<Rightarrow> Inr i)"

definition float_of_str :: "deps \<Rightarrow> string \<Rightarrow> exn + real" where
  "float_of_str d s = (case py_float d s of None \<Rightarrow> Inl ValueError | Some x \<Rightarrow> Inr x)"

text \<open>
  The second half of \<^verbatim>\<open>Song.from_boomlings\<close>: the attributes are read from the parsed
  response in the order of the source, and the first failing read raises.
\<close>

definition song_of_parsed :: "deps \<Rightarrow> (int \<rightharpoonup> string) \<Rightarrow> exn + song" where
  "song_of_parsed d parsed_resp =
     bind_exn (getitem parsed_resp 1) (\<lambda>v1.
     bind_exn (int_of_str d v1) (\<lambda>a_id.
     bind_exn (getitem parsed_resp 2) (\<lambda>a_title.
     bind_exn (getitem parsed_resp 3) (\<lambda>v3.
     bind_exn (int_of_str d v3) (\<lambda>a_author_id.
     bind_exn (getitem parsed_resp 4) (\<lambda>a_author_name.
     bind_exn (getitem parsed_resp 5) (\<lambda>v5.
     bind_exn (float_of_str d v5) (\<lambda>a_size.
     bind_exn (getitem parsed_resp 7) (\<lambda>a_author_yt.
     bind_exn (getitem parsed_resp 10) (\<lambda>a_url.
       Inr \<lparr>id_song = a_id, title = a_title, author_id = a_author_id,
            author_name = a_author_name, size_song = a_size,
            author_yt = a_author_yt, url = a_url\<rparr>))))))))))"

text \<open>
  \<^verbatim>\<open>Song.from_boomlings\<close>: one request; a numeric or empty body is reported to the
  logger and gives \<open>None\<close>.
\<close>

definition Song_from_boomlings :: "deps \<Rightarrow> int \<Rightarrow> world \<Rightarrow> (exn + song option) \<times> world" where
  "Song_from_boomlings d sid w =
     (case post_request sid w of (boomlings_data, w1) \<Rightarrow>
        if is_numeric d boomlings_data \<or> boomlings_data = [] then
          (Inr None, log_debug boomlings_data (log_error sid w1))
        else
          (bind_exn (song_of_parsed d (parse_to_dict d boomlings_data)) (\<lambda>s. Inr (Some s)), w1))"

text \<open>
  \<^verbatim>\<open>Song.insert\<close>: the sentinel \<open>-1\<close> becomes \<^verbatim>\<open>None\<close>, the row is written, and the
  identifier of the object becomes what the store returns. There is no other check.
\<close>

definition Song_insert :: "song \<Rightarrow> world \<Rightarrow> song \<times> world" where
  "Song_insert self w =
     (let ido = (if id_song self = - 1 then None else Some (id_song self)) in
      case execute_insert_song
             (ido, title self, author_id self, author_name self, size_song self,
              author_yt self, url self) w of
        (rowid, w1) \<Rightarrow> (self\<lparr>id_song := rowid\<rparr>, w1))"

text \<open>
  \<^verbatim>\<open>Song.from_id\<close>: the shortcut for a falsy identifier, then cache, store and catalogue
  in this order. A \<^verbatim>\<open>Song\<close> object is always truthy.
\<close>

definition Song_from_id :: "deps \<Rightarrow> int \<Rightarrow> world \<Rightarrow> (exn + song option) \<times> world" where
  "Song_from_id d sid w =
     (if sid = 0 then (Inr (Some Song_init), w)
      else
        case song_cache_get sid w of
          (Some s, w1) \<Rightarrow> (Inr (Some s), w1)
        | (None, w1) \<Rightarrow>
            (case Song_from_sql sid w1 of
               (Some s, w2) \<Rightarrow> (Inr (Some s), song_cache_cache (id_song s) s w2)
             | (None, w2) \<Rightarrow>
                 (case Song_from_boomlings d sid w2 of
                    (Inl e, w3) \<Rightarrow> (Inl e, w3)
                  | (Inr None, w3) \<Rightarrow> (Inr None, w3)
                  | (Inr (Some s), w3) \<Rightarrow>
                      (case Song_insert s w3 of
                         (s', w4) \<Rightarrow> (Inr (Some s'), song_cache_cache (id_song s') s' w4)))))"

section \<open>Level payload: load and write\<close>

definition MAX_CACHE_SIZE :: nat where
  "MAX_CACHE_SIZE = 5000"

text \<open>\<^verbatim>\<open>Level.__init__\<close>: the placeholder attributes.\<close>

definition Level_init :: "deps \<Rightarrow> level" where
  "Level_init d =
     \<lparr>id_level = 0, name = [], creator = Some (User_new d), comments = [],
      description = [], song = SongObj Song_init, track_id = 0, level_version = 0,
      length_level = 0, dual = False, unlisted = False,
      extra_str = ''0_0_0_0_0_0_0_0_0_0_0_0_0_0_0_0_0_0_0_0_0_0_0_0_0_0_0_0_0_0_0_0_0_0_0_0_0_0_0_0_0_0_0_0_0_0_0_0_0_0_0_0_0_0_0'',
      replay = [], game_version = 22, binary_version = 35, timestamp = 0, likes = 0,
      downloads = 0, stars = 0, difficulty = Difficulty_NA d, demon_diff = 0, coins = 0,
      coins_verified = False, requested_stars = 0, feature_id = 0, rate_status = 0,
      ldm = False, objects = 0, password = 0, working_time = 0, cache_str = []\<rparr>"

text \<open>
  The property \<^verbatim>\<open>Level.path\<close>: the location of the payload, or \<open>None\<close> where no file
  exists there.
\<close>

definition path :: "deps \<Rightarrow> level \<Rightarrow> world \<Rightarrow> fpath option \<times> world" where
  "path d self w =
     (let p = (dir_levels d, id_level self) in
      case files w p of
        None \<Rightarrow> (None, record_call (PathExists p) w)
      | Some c \<Rightarrow> (Some p, record_call (PathExists p) w))"

text \<open>Opening a file for reading: a missing file raises.\<close>

definition read_file :: "fpath \<Rightarrow> world \<Rightarrow> (exn + string) \<times> world" where
  "read_file p w =
     (case files w p of
        None \<Rightarrow> (Inl FileNotFoundError, record_call (FileRead p) w)
      | Some c \<Rightarrow> (Inr c, record_call (FileRead p) w))"

text \<open>
  \<^verbatim>\<open>Level.load\<close>: a non-empty instance cache is returned as it is; otherwise the file is
  read, and kept in the instance cache when \<^verbatim>\<open>sys.getsizeof\<close> of it is at most
  \<open>MAX_CACHE_SIZE\<close>.
\<close>

definition Level_load :: "deps \<Rightarrow> level \<Rightarrow> world \<Rightarrow> (exn + string option) \<times> level \<times> world" where
  "Level_load d self w =
     (if cache_str self \<noteq> [] then (Inr (Some (cache_str self)), self, w)
      else
        case path d self w of
          (None, w1) \<Rightarrow> (Inr None, self, w1)
        | (Some p, w1) \<Rightarrow>
            (case read_file p w1 of
               (Inl e, w2) \<Rightarrow> (Inl e, self, w2)
             | (Inr contents, w2) \<Rightarrow>
                 (Inr (Some contents),
                  (if getsizeof d contents \<le> MAX_CACHE_SIZE
                   then self\<lparr>cache_str := contents\<rparr> else self),
                  w2)))"

text \<open>
  \<^verbatim>\<open>Level.write\<close>: the instance cache is set when the contents are small enough, and
  the file is overwritten. The source has no \<^verbatim>\<open>else\<close> branch.
\<close>

definition Level_write :: "deps \<Rightarrow> level \<Rightarrow> string \<Rightarrow> world \<Rightarrow> level \<times> world" where
  "Level_write d self contents w =
     (let self1 = (if getsizeof d contents \<le> MAX_CACHE_SIZE
                   then self\<lparr>cache_str := contents\<rparr> else self);
          p = (dir_levels d, id_level self)
      in (self1, record_call (FileWrite p) (w\<lparr>files := (files w)(p \<mapsto> contents)\<rparr>)))"

text \<open>\<^verbatim>\<open>Level.cache\<close>: the level under its identifier in the shared level cache.\<close>

definition Level_cache :: "level \<Rightarrow> world \<Rightarrow> world" where
  "Level_cache self w = level_cache_cache (id_level self) self w"

section \<open>Level resolution\<close>

text \<open>\<^verbatim>\<open>Level._fetch_comments\<close>: the body is \<^verbatim>\<open>...\<close>.\<close>

definition fetch_comments :: "level \<Rightarrow> world \<Rightarrow> level \<times> world" where
  "fetch_comments self w = (self, w)"

text \<open>
  The attributes \<^verbatim>\<open>Level.from_sql\<close> assigns from the row. A flag column is true when
  it is not zero.
\<close>

definition assign_row :: "level \<Rightarrow> level_row \<Rightarrow> level" where
  "assign_row self r =
     self\<lparr>id_level := col_id r, name := col_name r, description := col_description r,
          extra_str := col_extra_str r, replay := col_replay r,
          game_version := col_game_version r, binary_version := col_binary_version r,
          timestamp := col_timestamp r, downloads := col_downloads r, likes := col_likes r,
          stars := col_stars r, difficulty := col_difficulty r,
          demon_diff := col_demon_diff r, coins := col_coins r,
          coins_verified := (col_coins_verified r \<noteq> 0),
          requested_stars := col_requested_stars r, feature_id := col_featured_id r,
          rate_status := col_rate_status r, ldm := (col_ldm r \<noteq> 0),
          objects := col_objects r, password := col_password r,
          working_time := col_working_time r, level_version := col_level_ver r,
          track_id := col_track_id r, length_level := col_length r,
          dual := (col_duals r \<noteq> 0), unlisted := (col_unlisted r \<noteq> 0)\<rparr>"

text \<open>
  \<^verbatim>\<open>Level.from_sql\<close>: the row is fetched, the new object is filled from it, creator and
  song are resolved, the comments are fetched when \<^verbatim>\<open>full\<close> is set. The body ends
  there: it has no \<^verbatim>\<open>return self\<close> and does not call \<^verbatim>\<open>self.cache()\<close>, so the
  result is \<^verbatim>\<open>None\<close> and the object it built is dropped.
\<close>

definition Level_from_sql :: "deps \<Rightarrow> int \<Rightarrow> bool \<Rightarrow> world \<Rightarrow> (exn + level option) \<times> world" where
  "Level_from_sql d level_id full w =
     (case fetchone_levels level_id w of
        (None, w1) \<Rightarrow> (Inr None, w1)
      | (Some level_db, w1) \<Rightarrow>
          (let self = assign_row (Level_init d) level_db in
           case User_from_id d (col_user_id level_db) w1 of (u, w2) \<Rightarrow>
             (case Song_from_id d (col_song_id level_db) w2 of
                (Inl e, w3) \<Rightarrow> (Inl e, w3)
              | (Inr so, w3) \<Rightarrow>
                  (let self1 = self\<lparr>creator := u,
                                     song := (case so of None \<Rightarrow> SongNone | Some s \<Rightarrow> SongObj s)\<rparr>
                   in if full then (Inr None, snd (fetch_comments self1 w3))
                      else (Inr None, w3)))))"

text \<open>
  What \<^verbatim>\<open>Level.from_id\<close> returns: a level taken from the cache, or the coroutine object
  of \<^verbatim>\<open>Level.from_sql(level_id, True)\<close>, which the source returns without awaiting it.
\<close>

datatype level_result =
    LevelObj level
  | LevelCoroutine int bool

definition Level_from_id :: "int \<Rightarrow> world \<Rightarrow> level_result \<times> world" where
  "Level_from_id level_id w =
     (case level_cache_get level_id w of
        (Some cache_l, w1) \<Rightarrow> (LevelObj cache_l, w1)
      | (None, w1) \<Rightarrow> (LevelCoroutine level_id True, w1))"

text \<open>Running a coroutine object, as a caller that awaits it does.\<close>

definition run_coroutine :: "deps \<Rightarrow> int \<Rightarrow> bool \<Rightarrow> world \<Rightarrow> (exn + level option) \<times> world" where
  "run_coroutine d level_id full w = Level_from_sql d level_id full w"

section \<open>Level persistence and update\<close>

text \<open>
  The statement of \<^verbatim>\<open>Level.insert\<close> lists nineteen columns, and its \<^verbatim>\<open>VALUES\<close>
  clause is \<^verbatim>\<open>(%s,%s,%s,%s,%s,%s,%s,%s,%s,%s,%s,%s,%s,%s,%s)\<close>: fifteen markers.
\<close>

definition INSERT_LEVEL_MARKERS :: nat where
  "INSERT_LEVEL_MARKERS = 15"

text \<open>
  The tuple of values \<^verbatim>\<open>Level.insert\<close> builds for the statement; the three flags go
  through \<^verbatim>\<open>int\<close>.
\<close>

definition insert_values :: "level \<Rightarrow> int \<Rightarrow> int \<Rightarrow> int \<Rightarrow> insert_params" where
  "insert_values self creator_id song_id ts =
     \<lparr>p_name = name self, p_user_id = creator_id, p_description = description self,
      p_song_id = song_id, p_replay = replay self, p_game_version = game_version self,
      p_binary_version = binary_version self, p_timestamp = ts, p_coins = coins self,
      p_requested_stars = requested_stars self, p_ldm = (if ldm self then 1 else 0),
      p_objects = objects self, p_password = password self,
      p_working_time = working_time self, p_level_ver = level_version self,
      p_track_id = track_id self, p_length = length_level self,
      p_duals = (if dual self then 1 else 0),
      p_unlisted = (if unlisted self then 1 else 0)\<rparr>"

text \<open>
  \<^verbatim>\<open>Level.insert\<close>: a level that has an identifier is refused before anything else
  happens. Otherwise the timestamp is taken, the values are read (reading \<^verbatim>\<open>.id\<close> of a
  creator or song that is not an object raises), and the statement is handed to the
  store with them. What the store raises is passed on; where it returns, the identifier of
  the level becomes what it returned.
\<close>

definition Level_insert :: "deps \<Rightarrow> level \<Rightarrow> world \<Rightarrow> (exn + unit) \<times> level \<times> world" where
  "Level_insert d self w =
     (if id_level self \<noteq> 0 then (Inl FileExistsError, self, w)
      else
        let ts = get_timestamp w in
        case creator self of
          None \<Rightarrow> (Inl AttributeError, self, w)
        | Some u \<Rightarrow>
            (case song self of
               SongObj s \<Rightarrow>
                 (case execute_insert_level d INSERT_LEVEL_MARKERS
                         (insert_values self (id_user u) (id_song s) ts) w of
                    (Inl e, w1) \<Rightarrow> (Inl e, self, w1)
                  | (Inr rowid, w1) \<Rightarrow> (Inr (), self\<lparr>id_level := rowid\<rparr>, w1))
             | SongNone \<Rightarrow> (Inl AttributeError, self, w)
             | SongCoroutine k \<Rightarrow> (Inl AttributeError, self, w)))"

text \<open>
  The keyword arguments of \<^verbatim>\<open>Level.update\<close> that the body reads: \<open>None\<close> for a key
  that is not passed.
\<close>

record kwargs =
  kw_name :: "string option"
  kw_desc :: "string option"
  kw_version :: "int option"
  kw_length :: "int option"
  kw_ldm :: "bool option"
  kw_coins :: "int option"
  kw_verified_coins :: "bool option"
  kw_dual :: "bool option"
  kw_password :: "int option"
  kw_objects :: "int option"
  kw_song_id :: "int option"
  kw_work_time :: "int option"
  kw_unlisted :: "bool option"
  kw_game_version :: "int option"
  kw_binary_version :: "int option"
  kw_track_id :: "int option"

text \<open>\<^verbatim>\<open>kwargs.get(key, default)\<close>.\<close>

definition kwargs_get :: "'a option \<Rightarrow> 'a \<Rightarrow> 'a" where
  "kwargs_get v dflt = (case v of None \<Rightarrow> dflt | Some x \<Rightarrow> x)"

text \<open>
  The first statement of \<^verbatim>\<open>Level.update\<close> after the check: song and track.
  \<^verbatim>\<open>kwargs.get("song_id")\<close> is falsy when the key is not passed or is 0.
\<close>

definition update_song :: "level \<Rightarrow> kwargs \<Rightarrow> level" where
  "update_song self kw =
     (if kwargs_get (kw_song_id kw) 0 \<noteq> 0 then
        self\<lparr>song := SongCoroutine (kwargs_get (kw_song_id kw) 0), track_id := 0\<rparr>
      else
        self\<lparr>track_id := kwargs_get (kw_track_id kw) 0\<rparr>)"

text \<open>The fifteen assignments that follow, in the order of the source.\<close>

definition update_fields :: "level \<Rightarrow> kwargs \<Rightarrow> level" where
  "update_fields self kw =
     (let s1 = self\<lparr>name := kwargs_get (kw_name kw) (name self)\<rparr>;
          s2 = s1\<lparr>description := kwargs_get (kw_desc kw) (description s1)\<rparr>;
          s3 = s2\<lparr>level_version := kwargs_get (kw_version kw) (level_version s2)\<rparr>;
          s4 = s3\<lparr>length_level := kwargs_get (kw_length kw) (length_level s3)\<rparr>;
          s5 = s4\<lparr>ldm := kwargs_get (kw_ldm kw) (ldm s4)\<rparr>;
          s6 = s5\<lparr>coins := kwargs_get (kw_coins kw) (coins s5)\<rparr>;
          s7 = s6\<lparr>coins_verified := kwargs_get (kw_verified_coins kw) (coins_verified s6)\<rparr>;
          s8 = s7\<lparr>dual := kwargs_get (kw_dual kw) (dual s7)\<rparr>;
          s9 = s8\<lparr>password := kwargs_get (kw_password kw) (password s8)\<rparr>;
          s10 = s9\<lparr>objects := kwargs_get (kw_objects kw) (objects s9)\<rparr>;
          s11 = s10\<lparr>working_time := kwargs_get (kw_work_time kw) (working_time s10)\<rparr>;
          s12 = s11\<lparr>unlisted := kwargs_get (kw_unlisted kw) (unlisted s11)\<rparr>;
          s13 = s12\<lparr>game_version := kwargs_get (kw_game_version kw) (game_version s12)\<rparr>;
          s14 = s13\<lparr>binary_version := kwargs_get (kw_binary_version kw) (binary_version s13)\<rparr>
      in s14\<lparr>track_id := kwargs_get (kw_track_id kw) (track_id s14)\<rparr>)"

text \<open>
  \<^verbatim>\<open>Level.update\<close>: refused for a level without identifier; the changes are made on
  the object only, no statement is sent to the store.
\<close>

definition Level_update :: "level \<Rightarrow> kwargs \<Rightarrow> exn + level" where
  "Level_update self kw =
     (if id_level self = 0 then Inl FileNotFoundError
      else Inr (update_fields (update_song self kw) kw))"

section \<open>Measures of a payload\<close>

text \<open>
  A character of a payload is a code point below 256. \<^verbatim>\<open>sys.getsizeof\<close> of a
  \<^verbatim>\<open>str\<close> is the size of the string object, as CPython 3.8 to 3.11 lays it out on a
  64-bit build: a string of code points below 128 takes 49 units and one per character,
  a string with a code point from 128 to 255 takes 73 units and one per character.
\<close>

definition sys_getsizeof :: "string \<Rightarrow> nat" where
  "sys_getsizeof s =
     (if list_all (\<lambda>c. (of_char c :: nat) < 128) s then 49 + length s else 73 + length s)"

text \<open>
  The measure the specification names: the size of the encoded payload, that is the
  number of bytes of its UTF-8 encoding, one for a code point below 128 and two for one
  from 128 to 255.
\<close>

definition encoded_size :: "string \<Rightarrow> nat" where
  "encoded_size s = sum_list (map (\<lambda>c. if (of_char c :: nat) < 128 then 1 else 2) s)"

section \<open>Sample inputs\<close>

text \<open>
  Concrete collaborators for evaluating the functions: the catalogue answers \<open>-1\<close> for a
  song it does not know, one body parses to a full record, and the size of a string is
  its length plus a header of 49 units.
\<close>

definition sample_body :: string where
  "sample_body = ''1~|~7~|~2~|~T~|~3~|~2~|~4~|~A~|~5~|~1.23~|~7~|~yt~|~10~|~http://x''"

definition sample_row :: level_row where
  "sample_row =
     \<lparr>col_id = 1, col_name = ''lvl'', col_user_id = 1, col_description = [],
      col_song_id = 0, col_extra_str = [], col_replay = [], col_game_version = 22,
      col_binary_version = 35, col_timestamp = 0, col_downloads = 0, col_likes = 0,
      col_stars = 0, col_difficulty = 0, col_demon_diff = 0, col_coins = 0,
      col_coins_verified = 0, col_requested_stars = 0, col_featured_id = 0,
      col_rate_status = 0, col_ldm = 0, col_objects = 0, col_password = 0,
      col_working_time = 0, col_level_ver = 1, col_track_id = 0, col_length = 0,
      col_duals = 0, col_unlisted = 0\<rparr>"

text \<open>
  A test double of the store that accepts the statement of \<^verbatim>\<open>Level.insert\<close> whatever
  the number of its markers, and stores each value under the column at its position.
\<close>

definition sample_adapter :: "nat \<Rightarrow> insert_params \<Rightarrow> exn + level_row" where
  "sample_adapter markers p =
     Inr (sample_row\<lparr>col_name := p_name p, col_user_id := p_user_id p,
        col_description := p_description p, col_song_id := p_song_id p,
        col_replay := p_replay p, col_game_version := p_game_version p,
        col_binary_version := p_binary_version p, col_timestamp := p_timestamp p,
        col_coins := p_coins p, col_requested_stars := p_requested_stars p,
        col_ldm := p_ldm p, col_objects := p_objects p, col_password := p_password p,
        col_working_time := p_working_time p, col_level_ver := p_level_ver p,
        col_track_id := p_track_id p, col_length := p_length p, col_duals := p_duals p,
        col_unlisted := p_unlisted p\<rparr>)"

text \<open>
  An adapter that formats the statement as Python's \<^verbatim>\<open>%\<close> does: values left over
  after the markers are used up raise \<^verbatim>\<open>TypeError\<close>.
\<close>

definition strict_adapter :: "nat \<Rightarrow> insert_params \<Rightarrow> exn + level_row" where
  "strict_adapter markers p = (if markers = 19 then sample_adapter markers p else Inl TypeError)"

definition sample_deps :: deps where
  "sample_deps =
     \<lparr>is_numeric = (\<lambda>s. s = ''-1''),
      parse_to_dict = (\<lambda>s. if s = sample_body
         then [1 \<mapsto> ''7'', 2 \<mapsto> ''T'', 3 \<mapsto> ''2'', 4 \<mapsto> ''A'', 5 \<mapsto> ''1.23'',
               7 \<mapsto> ''yt'', 10 \<mapsto> ''http://x'']
         else Map.empty),
      py_int = (\<lambda>s. if s = ''7'' then Some 7 else if s = ''2'' then Some 2 else None),
      py_float = (\<lambda>s. if s = ''1.23'' then Some (123 / 100) else None),
      getsizeof = (\<lambda>s. 49 + length s),
      dir_levels = ''levels'',
      User_new = \<lparr>id_user = 0\<rparr>,
      users = [1 \<mapsto> \<lparr>id_user = 1\<rparr>],
      Difficulty_NA = 0,
      levels_adapter = sample_adapter\<rparr>"

text \<open>
  A world with empty caches, one level row in the store, song 7 known to the catalogue
  only, and no payload file.
\<close>

definition sample_world :: world where
  "sample_world =
     \<lparr>song_cache = Map.empty, level_cache = Map.empty, sql_songs = [],
      sql_levels = [sample_row], autoinc_songs = 1, autoinc_levels = 2,
      boomlings = (\<lambda>k. if k = 7 then sample_body else ''-1''),
      files = Map.empty, now = 1600000000, calls = []\<rparr>"

text \<open>A level that was uploaded with a custom song and has small contents cached.\<close>

definition sample_level :: level where
  "sample_level =
     (Level_init sample_deps)\<lparr>id_level := 1, song := SongObj (Song_init\<lparr>id_song := 5\<rparr>),
        cache_str := ''small''\<rparr>"

definition no_kwargs :: kwargs where
  "no_kwargs =
     \<lparr>kw_name = None, kw_desc = None, kw_version = None, kw_length = None, kw_ldm = None,
      kw_coins = None, kw_verified_coins = None, kw_dual = None, kw_password = None,
      kw_objects = None, kw_song_id = None, kw_work_time = None, kw_unlisted = None,
      kw_game_version = None, kw_binary_version = None, kw_track_id = None\<rparr>"

section \<open>Facts about the collaborators\<close>

text \<open>Recording a call changes the record of calls and nothing else.\<close>

lemma record_call_fields:
  "calls (record_call e w) = calls w @ [e]"
  "song_cache (record_call e w) = song_cache w"
  "level_cache (record_call e w) = level_cache w"
  "sql_songs (record_call e w) = sql_songs w"
  "sql_levels (record_call e w) = sql_levels w"
  "autoinc_songs (record_call e w) = autoinc_songs w"
  "autoinc_levels (record_call e w) = autoinc_levels w"
  "boomlings (record_call e w) = boomlings w"
  "files (record_call e w) = files w"
  "now (record_call e w) = now w"
  by (simp_all add: record_call_def)

text \<open>Song resolution never touches the level cache, and only ever adds calls.\<close>

lemma Song_from_boomlings_level_cache:
  "Song_from_boomlings d sid w = (r, w') \<Longrightarrow> level_cache w' = level_cache w"
  by (auto simp: Song_from_boomlings_def post_request_def log_error_def log_debug_def
      record_call_fields split: if_splits)

lemma Song_insert_level_cache: "Song_insert s w = (s', w') \<Longrightarrow> level_cache w' = level_cache w"
  by (auto simp: Song_insert_def execute_insert_song_def record_call_fields Let_def
      split: option.splits prod.splits if_splits)

lemma Song_from_sql_level_cache: "Song_from_sql sid w = (r, w') \<Longrightarrow> level_cache w' = level_cache w"
  by (auto simp: Song_from_sql_def fetchone_songs_def record_call_fields
      split: option.splits prod.splits)

lemma Song_from_id_level_cache:
  assumes "Song_from_id d sid w = (r, w')"
  shows "level_cache w' = level_cache w"
proof (cases "sid = 0")
  case True
  with assms show ?thesis by (simp add: Song_from_id_def)
next
  case False
  obtain c w1 where c: "song_cache_get sid w = (c, w1)" by (cases "song_cache_get sid w")
  then have w1: "level_cache w1 = level_cache w"
    by (auto simp: song_cache_get_def record_call_fields)
  obtain q w2 where q: "Song_from_sql sid w1 = (q, w2)" by (cases "Song_from_sql sid w1")
  then have w2: "level_cache w2 = level_cache w"
    using Song_from_sql_level_cache w1 by simp
  obtain b w3 where b: "Song_from_boomlings d sid w2 = (b, w3)"
    by (cases "Song_from_boomlings d sid w2")
  then have w3: "level_cache w3 = level_cache w"
    using Song_from_boomlings_level_cache w2 by simp
  have ins: "\<And>s s' w4. Song_insert s w3 = (s', w4) \<Longrightarrow> level_cache w4 = level_cache w"
    using Song_insert_level_cache w3 by simp
  show ?thesis
    using assms False c q b w1 w2 w3
    by (auto simp: Song_from_id_def song_cache_cache_def record_call_fields
        split: option.splits sum.splits prod.splits dest: ins)
qed

text \<open>
  \<^verbatim>\<open>Level.from_sql\<close> leaves the level cache as it was, never returns a level, and for
  a row it finds it goes on to resolve the creator.
\<close>

lemma Level_from_sql_level_cache:
  "Level_from_sql d lid full w = (r, w') \<Longrightarrow> level_cache w' = level_cache w"
  by (auto simp: Level_from_sql_def fetchone_levels_def User_from_id_def fetch_comments_def
      record_call_fields Let_def split: option.splits sum.splits prod.splits if_splits
      dest!: Song_from_id_level_cache)

lemma Level_from_sql_result:
  "Level_from_sql d lid full w = (r, w') \<Longrightarrow> r = Inr None \<or> (\<exists>e. r = Inl e)"
  by (auto simp: Level_from_sql_def fetchone_levels_def User_from_id_def fetch_comments_def
      Let_def split: option.splits sum.splits prod.splits if_splits)

lemma Song_from_id_calls:
  "Song_from_id d sid w = (r, w') \<Longrightarrow> \<exists>es. calls w' = calls w @ es"
  unfolding Song_from_id_def song_cache_get_def Song_from_sql_def fetchone_songs_def
    Song_from_boomlings_def post_request_def log_error_def log_debug_def Song_insert_def
    execute_insert_song_def song_cache_cache_def
  by (auto simp: record_call_def Let_def split: option.splits sum.splits prod.splits if_splits)

lemma Song_from_id_first_call:
  "sid \<noteq> 0 \<Longrightarrow> Song_from_id d sid w = (r, w') \<Longrightarrow>
   \<exists>es. calls w' = calls w @ CacheGet_song sid # es"
  unfolding Song_from_id_def song_cache_get_def Song_from_sql_def fetchone_songs_def
    Song_from_boomlings_def post_request_def log_error_def log_debug_def Song_insert_def
    execute_insert_song_def song_cache_cache_def
  by (auto simp: record_call_def Let_def split: option.splits sum.splits prod.splits if_splits)

lemma Level_from_sql_calls:
  "find (\<lambda>r. col_id r = lid) (sql_levels w) = Some row \<Longrightarrow>
   Level_from_sql d lid full w = (r, w') \<Longrightarrow>
   \<exists>es. calls w' = calls w @ Fetchone_levels lid # UserFromId (col_user_id row) # es"
  by (auto simp: Level_from_sql_def fetchone_levels_def User_from_id_def fetch_comments_def
      record_call_fields Let_def split: option.splits sum.splits prod.splits if_splits
      dest!: Song_from_id_calls)

section \<open>Level resolution by identifier\<close>

text \<open>
  C1. The claim: for a level identifier present only in the store, \<^verbatim>\<open>Level.from_id\<close>
  returns the level and inserts it into the shared level cache, so that the next
  resolution is served from the cache. The code does neither. With the level missing
  from the cache and its row in the store, \<^verbatim>\<open>Level.from_id\<close> records one cache lookup
  and returns the coroutine object of \<^verbatim>\<open>Level.from_sql\<close>, not a level. Running that
  coroutine fetches the row and resolves the creator, and then returns \<^verbatim>\<open>None\<close> (or
  raises); the level cache still has no entry for the identifier, and the next
  \<^verbatim>\<open>Level.from_id\<close> returns a coroutine object again.
\<close>

theorem level_from_id_store_only:
  assumes "level_cache w lid = None"
    and "find (\<lambda>r. col_id r = lid) (sql_levels w) = Some row"
  shows "Level_from_id lid w = (LevelCoroutine lid True, record_call (CacheGet_level lid) w)
    \<and> (let out = run_coroutine d lid True (record_call (CacheGet_level lid) w) in
         (fst out = Inr None \<or> (\<exists>e. fst out = Inl e))
       \<and> (\<exists>es. calls (snd out) =
             calls w @ CacheGet_level lid # Fetchone_levels lid # UserFromId (col_user_id row) # es)
       \<and> level_cache (snd out) lid = None
       \<and> fst (Level_from_id lid (snd out)) = LevelCoroutine lid True)"
proof -
  define w1 where "w1 = record_call (CacheGet_level lid) w"
  obtain r w2 where out: "run_coroutine d lid True w1 = (r, w2)"
    by (cases "run_coroutine d lid True w1")
  from assms(1) have a: "Level_from_id lid w = (LevelCoroutine lid True, w1)"
    by (simp add: Level_from_id_def level_cache_get_def w1_def)
  from out have b: "r = Inr None \<or> (\<exists>e. r = Inl e)"
    unfolding run_coroutine_def by (rule Level_from_sql_result)
  from out have "level_cache w2 = level_cache w1"
    unfolding run_coroutine_def by (rule Level_from_sql_level_cache)
  with assms(1) have c: "level_cache w2 lid = None"
    by (simp add: w1_def record_call_fields)
  then have e: "fst (Level_from_id lid w2) = LevelCoroutine lid True"
    by (simp add: Level_from_id_def level_cache_get_def)
  from assms(2) have "find (\<lambda>r. col_id r = lid) (sql_levels w1) = Some row"
    by (simp add: w1_def record_call_fields)
  from Level_from_sql_calls [OF this out [unfolded run_coroutine_def]]
  have f: "\<exists>es. calls w2 =
      calls w @ CacheGet_level lid # Fetchone_levels lid # UserFromId (col_user_id row) # es"
    by (simp add: w1_def record_call_fields)
  from a b c e f out show ?thesis
    by (simp add: Let_def w1_def [symmetric])
qed

theorem level_from_id_store_only_witness:
  "level_cache sample_world 1 = None
   \<and> find (\<lambda>r. col_id r = 1) (sql_levels sample_world) = Some sample_row
   \<and> fst (Level_from_id 1 sample_world) = LevelCoroutine 1 True
   \<and> fst (run_coroutine sample_deps 1 True (record_call (CacheGet_level 1) sample_world)) = Inr None
   \<and> level_cache (snd (run_coroutine sample_deps 1 True
         (record_call (CacheGet_level 1) sample_world))) 1 = None"
proof -
  have h1: "level_cache sample_world 1 = None" by (simp add: sample_world_def)
  have h2: "find (\<lambda>r. col_id r = 1) (sql_levels sample_world) = Some sample_row"
    by (simp add: sample_world_def sample_row_def)
  have r: "fst (run_coroutine sample_deps 1 True (record_call (CacheGet_level 1) sample_world)) = Inr None"
    by (simp add: run_coroutine_def Level_from_sql_def fetchone_levels_def record_call_fields
        sample_world_def sample_row_def User_from_id_def Song_from_id_def fetch_comments_def Let_def)
  from level_from_id_store_only [OF h1 h2, of sample_deps] h1 h2 r show ?thesis
    by (simp add: Let_def)
qed

section \<open>The size-gated payload cache\<close>

text \<open>
  C2. The claim: \<^verbatim>\<open>write(contents)\<close> with contents above the threshold clears the
  instance cache, so that the next \<^verbatim>\<open>load()\<close> reads the file. The code leaves the
  instance cache as it was: for a level that holds a cached payload, a write above the
  threshold puts the new contents into the file, keeps the old payload in the instance,
  and the next \<^verbatim>\<open>load()\<close> returns the old payload without any call to the file store.
\<close>

theorem write_large_keeps_stale_cache:
  assumes "cache_str l \<noteq> []" and "MAX_CACHE_SIZE < getsizeof d contents"
  shows "fst (Level_write d l contents w) = l
    \<and> files (snd (Level_write d l contents w)) (dir_levels d, id_level l) = Some contents
    \<and> calls (snd (Level_write d l contents w)) = calls w @ [FileWrite (dir_levels d, id_level l)]
    \<and> Level_load d l (snd (Level_write d l contents w)) =
        (Inr (Some (cache_str l)), l, snd (Level_write d l contents w))"
  using assms by (simp add: Level_write_def Level_load_def Let_def record_call_fields)

theorem write_large_keeps_stale_cache_witness:
  "cache_str sample_level \<noteq> []
   \<and> MAX_CACHE_SIZE < getsizeof sample_deps (replicate 5000 CHR ''a'')
   \<and> fst (Level_load sample_deps sample_level
        (snd (Level_write sample_deps sample_level (replicate 5000 CHR ''a'') sample_world)))
      = Inr (Some ''small'')"
proof -
  have h1: "cache_str sample_level \<noteq> []" by (simp add: sample_level_def)
  have h2: "MAX_CACHE_SIZE < getsizeof sample_deps (replicate 5000 CHR ''a'')"
    by (simp add: MAX_CACHE_SIZE_def sample_deps_def)
  have c: "cache_str sample_level = ''small''" by (simp add: sample_level_def)
  from write_large_keeps_stale_cache [OF h1 h2, of sample_world] h1 h2 c show ?thesis
    by simp
qed

section \<open>Level update\<close>

text \<open>What the fifteen assignments do to the identifier, the song and the track.\<close>

lemma update_fields_frame:
  "song (update_fields l kw) = song l"
  "id_level (update_fields l kw) = id_level l"
  "track_id (update_fields l kw) = kwargs_get (kw_track_id kw) (track_id l)"
  by (simp_all add: update_fields_def Let_def)

text \<open>
  C3. The claim: setting the track identifier clears the song reference, and after any
  sequence of such updates exactly one of the two is non-default. The code keeps the song
  reference: an update of an uploaded level that passes a track identifier and no (truthy)
  song identifier succeeds, sets the track identifier and leaves the song as it was, so a
  level with a custom song then has both.
\<close>

theorem update_track_id_keeps_song:
  assumes "id_level l \<noteq> 0" and "kwargs_get (kw_song_id kw) 0 = 0" and "kw_track_id kw = Some t"
  shows "\<exists>l'. Level_update l kw = Inr l' \<and> song l' = song l \<and> track_id l' = t"
  using assms by (simp add: Level_update_def update_song_def update_fields_frame kwargs_get_def)

theorem update_track_id_keeps_song_witness:
  "id_level sample_level \<noteq> 0
   \<and> kwargs_get (kw_song_id (no_kwargs\<lparr>kw_track_id := Some 3\<rparr>)) 0 = 0
   \<and> (\<exists>l'. Level_update sample_level (no_kwargs\<lparr>kw_track_id := Some 3\<rparr>) = Inr l'
         \<and> song l' = SongObj (Song_init\<lparr>id_song := 5\<rparr>) \<and> track_id l' = 3)"
proof -
  have h1: "id_level sample_level \<noteq> 0" by (simp add: sample_level_def)
  have h2: "kwargs_get (kw_song_id (no_kwargs\<lparr>kw_track_id := Some 3\<rparr>)) 0 = 0"
    by (simp add: no_kwargs_def kwargs_get_def)
  have h3: "kw_track_id (no_kwargs\<lparr>kw_track_id := Some 3\<rparr>) = Some 3" by simp
  have s: "song sample_level = SongObj (Song_init\<lparr>id_song := 5\<rparr>)" by (simp add: sample_level_def)
  from update_track_id_keeps_song [OF h1 h2 h3] h1 h2 s show ?thesis by simp
qed

text \<open>
  C4. The claim: a field that is not in the change set keeps its value; in particular an
  update that names neither \<^verbatim>\<open>song_id\<close> nor \<^verbatim>\<open>track_id\<close> leaves the track
  identifier unchanged. The code sets it to 0: such an update of an uploaded level
  succeeds and the track identifier is 0 afterwards, whatever it was.
\<close>

theorem update_without_track_id_resets_it:
  assumes "id_level l \<noteq> 0" and "kwargs_get (kw_song_id kw) 0 = 0" and "kw_track_id kw = None"
  shows "\<exists>l'. Level_update l kw = Inr l' \<and> track_id l' = 0"
  using assms by (simp add: Level_update_def update_song_def update_fields_frame kwargs_get_def)

theorem update_without_track_id_resets_it_witness:
  "id_level (sample_level\<lparr>track_id := 7\<rparr>) \<noteq> 0
   \<and> track_id (sample_level\<lparr>track_id := 7\<rparr>) = 7
   \<and> (\<exists>l'. Level_update (sample_level\<lparr>track_id := 7\<rparr>) (no_kwargs\<lparr>kw_name := Some ''x''\<rparr>) = Inr l'
         \<and> track_id l' = 0)"
proof -
  have h1: "id_level (sample_level\<lparr>track_id := 7\<rparr>) \<noteq> 0" by (simp add: sample_level_def)
  have h2: "kwargs_get (kw_song_id (no_kwargs\<lparr>kw_name := Some ''x''\<rparr>)) 0 = 0"
    by (simp add: no_kwargs_def kwargs_get_def)
  have h3: "kw_track_id (no_kwargs\<lparr>kw_name := Some ''x''\<rparr>) = None" by (simp add: no_kwargs_def)
  from update_without_track_id_resets_it [OF h1 h2 h3] h1 show ?thesis by simp
qed

section \<open>Song resolution\<close>

text \<open>
  The answer of the catalogue depends on the catalogue only, a hit makes one request and
  nothing else, and \<^verbatim>\<open>Song.insert\<close> in closed form.
\<close>

lemma Song_from_boomlings_fst:
  "boomlings w' = boomlings w \<Longrightarrow>
   fst (Song_from_boomlings d sid w') = fst (Song_from_boomlings d sid w)"
  by (simp add: Song_from_boomlings_def post_request_def)

lemma Song_from_boomlings_hit:
  "fst (Song_from_boomlings d sid w) = Inr (Some s) \<Longrightarrow>
   Song_from_boomlings d sid w = (Inr (Some s), record_call (PostRequest sid) w)"
  by (auto simp: Song_from_boomlings_def post_request_def split: if_splits)

lemma Song_insert_result:
  "Song_insert s w =
     (s\<lparr>id_song := (if id_song s = - 1 then autoinc_songs w else id_song s)\<rparr>,
      record_call (Execute_insert_song (if id_song s = - 1 then None else Some (id_song s)))
        (w\<lparr>sql_songs := sql_songs w @
              [(if id_song s = - 1 then autoinc_songs w else id_song s, title s, author_id s,
                author_name s, size_song s, author_yt s, url s)],
           autoinc_songs := (if id_song s = - 1 then autoinc_songs w + 1 else autoinc_songs w)\<rparr>))"
  by (simp add: Song_insert_def execute_insert_song_def)

text \<open>
  C5. For a song identifier that is not 0, is absent from the cache and from the store,
  and for which the catalogue gives a song, \<^verbatim>\<open>Song.from_id\<close> returns that song under
  the identifier the store returned, and the calls it made are, in this order: the cache
  lookup, the store fetch, the catalogue request, one store insert and one cache insert.
  The store has one more row and the cache holds the returned song.
\<close>

theorem song_from_id_external_hit:
  assumes "sid \<noteq> 0" and "song_cache w sid = None"
    and "find (\<lambda>r. fst r = sid) (sql_songs w) = None"
    and "fst (Song_from_boomlings d sid w) = Inr (Some s)"
  shows "let rowid = (if id_song s = - 1 then autoinc_songs w else id_song s);
             out = Song_from_id d sid w
         in fst out = Inr (Some (s\<lparr>id_song := rowid\<rparr>))
          \<and> calls (snd out) = calls w @
              [CacheGet_song sid, Fetchone_songs sid, PostRequest sid,
               Execute_insert_song (if id_song s = - 1 then None else Some (id_song s)),
               CacheSet_song rowid]
          \<and> sql_songs (snd out) = sql_songs w @
              [(rowid, title s, author_id s, author_name s, size_song s, author_yt s, url s)]
          \<and> song_cache (snd out) = (song_cache w)(rowid \<mapsto> s\<lparr>id_song := rowid\<rparr>)"
proof -
  define w1 where "w1 = record_call (CacheGet_song sid) w"
  define w2 where "w2 = record_call (Fetchone_songs sid) w1"
  define w3 where "w3 = record_call (PostRequest sid) w2"
  define rowid where "rowid = (if id_song s = - 1 then autoinc_songs w else id_song s)"
  have c: "song_cache_get sid w = (None, w1)"
    using assms(2) by (simp add: song_cache_get_def w1_def)
  have q: "Song_from_sql sid w1 = (None, w2)"
    using assms(3) by (simp add: Song_from_sql_def fetchone_songs_def record_call_fields w1_def w2_def)
  have "boomlings w2 = boomlings w" by (simp add: w1_def w2_def record_call_fields)
  from Song_from_boomlings_fst [OF this, of d sid]
  have "fst (Song_from_boomlings d sid w2) = Inr (Some s)"
    using assms(4) by simp
  then have b: "Song_from_boomlings d sid w2 = (Inr (Some s), w3)"
    unfolding w3_def by (rule Song_from_boomlings_hit)
  have a3: "autoinc_songs w3 = autoinc_songs w" "sql_songs w3 = sql_songs w"
    "song_cache w3 = song_cache w"
    "calls w3 = calls w @ [CacheGet_song sid, Fetchone_songs sid, PostRequest sid]"
    by (simp_all add: w1_def w2_def w3_def record_call_fields)
  define w4 where "w4 = snd (Song_insert s w3)"
  have i: "Song_insert s w3 = (s\<lparr>id_song := rowid\<rparr>, w4)"
    unfolding w4_def rowid_def by (simp add: Song_insert_result a3)
  have w4: "calls w4 = calls w3 @
        [Execute_insert_song (if id_song s = - 1 then None else Some (id_song s))]"
    "sql_songs w4 = sql_songs w3 @
        [(rowid, title s, author_id s, author_name s, size_song s, author_yt s, url s)]"
    "song_cache w4 = song_cache w3"
    unfolding w4_def rowid_def by (simp_all add: Song_insert_result a3 record_call_fields)
  have out: "Song_from_id d sid w =
      (Inr (Some (s\<lparr>id_song := rowid\<rparr>)), song_cache_cache rowid (s\<lparr>id_song := rowid\<rparr>) w4)"
    using assms(1) c q b i by (simp add: Song_from_id_def)
  show ?thesis
    unfolding Let_def rowid_def [symmetric] out
    by (simp add: song_cache_cache_def record_call_fields w4 a3)
qed

text \<open>The sample catalogue knows song 7.\<close>

lemma sample_boomlings_hit:
  "fst (Song_from_boomlings sample_deps 7 sample_world) =
     Inr (Some \<lparr>id_song = 7, title = ''T'', author_id = 2, author_name = ''A'',
                size_song = 123 / 100, author_yt = ''yt'', url = ''http://x''\<rparr>)"
  by (simp add: Song_from_boomlings_def post_request_def sample_world_def sample_deps_def
      sample_body_def song_of_parsed_def bind_exn_def getitem_def int_of_str_def
      float_of_str_def)

theorem song_from_id_external_hit_witness:
  "(7::int) \<noteq> 0 \<and> song_cache sample_world 7 = None
   \<and> find (\<lambda>r. fst r = 7) (sql_songs sample_world) = None
   \<and> fst (Song_from_boomlings sample_deps 7 sample_world) =
       Inr (Some \<lparr>id_song = 7, title = ''T'', author_id = 2, author_name = ''A'',
                  size_song = 123 / 100, author_yt = ''yt'', url = ''http://x''\<rparr>)
   \<and> calls (snd (Song_from_id sample_deps 7 sample_world)) =
       [CacheGet_song 7, Fetchone_songs 7, PostRequest 7, Execute_insert_song (Some 7),
        CacheSet_song 7]"
proof -
  have h1: "(7::int) \<noteq> 0" by simp
  have h2: "song_cache sample_world 7 = None" by (simp add: sample_world_def)
  have h3: "find (\<lambda>r. fst r = 7) (sql_songs sample_world) = None" by (simp add: sample_world_def)
  have c: "calls sample_world = []" by (simp add: sample_world_def)
  from song_from_id_external_hit [OF h1 h2 h3 sample_boomlings_hit] h2 h3 c sample_boomlings_hit
  show ?thesis by (simp add: Let_def)
qed

section \<open>Create-once insertion\<close>

text \<open>
  C6 as stated says that inserting a song that already carries an identifier fails and
  writes nothing. \<^verbatim>\<open>Song.insert\<close> on a song that carries the identifier 5 returns
  normally, and the row is written.
\<close>

theorem song_insert_assigned_id_counterexample:
  "Song_insert (Song_init\<lparr>id_song := 5\<rparr>) sample_world =
     (Song_init\<lparr>id_song := 5\<rparr>,
      sample_world\<lparr>sql_songs := [(5, [], 0, [], 0, [], [])],
                    calls := [Execute_insert_song (Some 5)]\<rparr>)"
  by (simp add: Song_insert_def execute_insert_song_def record_call_def Song_init_def
      sample_world_def)

text \<open>
  C6, as amended. A level that carries a non-zero identifier is refused by
  \<^verbatim>\<open>Level.insert\<close> with \<^verbatim>\<open>FileExistsError\<close>, and neither the level nor the store
  changes. When an insert succeeded and the identifier the store returned is not 0, a
  second insert of the same level is refused in the same way. \<^verbatim>\<open>Song.insert\<close> has no
  such check: for every identifier it makes one store insert, which adds one row, and it
  passes the identifier on (\<^verbatim>\<open>None\<close> for the sentinel \<open>-1\<close>).
\<close>

theorem insert_create_once:
  "(id_level l \<noteq> 0 \<longrightarrow> Level_insert d l w = (Inl FileExistsError, l, w))
   \<and> (autoinc_levels w \<noteq> 0 \<and> Level_insert d l w = (Inr (), l', w') \<longrightarrow>
        Level_insert d l' w' = (Inl FileExistsError, l', w'))
   \<and> calls (snd (Song_insert s w)) = calls w @
        [Execute_insert_song (if id_song s = - 1 then None else Some (id_song s))]
   \<and> length (sql_songs (snd (Song_insert s w))) = Suc (length (sql_songs w))"
proof -
  have a: "\<And>l w. id_level l \<noteq> 0 \<Longrightarrow> Level_insert d l w = (Inl FileExistsError, l, w)"
    by (simp add: Level_insert_def)
  have b: "autoinc_levels w \<noteq> 0 \<Longrightarrow> Level_insert d l w = (Inr (), l', w') \<Longrightarrow> id_level l' \<noteq> 0"
    by (auto simp: Level_insert_def execute_insert_level_def Let_def
        split: if_splits option.splits song_ref.splits sum.splits)
  have c: "calls (snd (Song_insert s w)) = calls w @
        [Execute_insert_song (if id_song s = - 1 then None else Some (id_song s))]"
    by (simp add: Song_insert_result record_call_fields)
  have e: "length (sql_songs (snd (Song_insert s w))) = Suc (length (sql_songs w))"
    by (simp add: Song_insert_result record_call_fields)
  from a b c e show ?thesis by blast
qed

text \<open>Inserting a new level into the sample world gives it the identifier 2.\<close>

lemma sample_insert:
  "Level_insert sample_deps (Level_init sample_deps) sample_world =
     (Inr (), (Level_init sample_deps)\<lparr>id_level := 2\<rparr>,
      snd (snd (Level_insert sample_deps (Level_init sample_deps) sample_world)))"
  by (simp add: Level_insert_def Level_init_def execute_insert_level_def Let_def
      sample_world_def sample_deps_def sample_adapter_def)

theorem insert_create_once_witness:
  "id_level sample_level \<noteq> 0
   \<and> Level_insert sample_deps sample_level sample_world =
       (Inl FileExistsError, sample_level, sample_world)
   \<and> autoinc_levels sample_world \<noteq> 0
   \<and> fst (Level_insert sample_deps (Level_init sample_deps) sample_world) = Inr ()
   \<and> fst (Level_insert sample_deps ((Level_init sample_deps)\<lparr>id_level := 2\<rparr>)
        (snd (snd (Level_insert sample_deps (Level_init sample_deps) sample_world))))
      = Inl FileExistsError"
proof -
  have h1: "id_level sample_level \<noteq> 0" by (simp add: sample_level_def)
  have h2: "autoinc_levels sample_world \<noteq> 0" by (simp add: sample_world_def)
  from insert_create_once [of sample_level sample_deps sample_world]
  have a: "Level_insert sample_deps sample_level sample_world =
       (Inl FileExistsError, sample_level, sample_world)" using h1 by blast
  from insert_create_once [of "Level_init sample_deps" sample_deps sample_world
      "(Level_init sample_deps)\<lparr>id_level := 2\<rparr>"
      "snd (snd (Level_insert sample_deps (Level_init sample_deps) sample_world))"]
    h2 sample_insert
  have b: "Level_insert sample_deps ((Level_init sample_deps)\<lparr>id_level := 2\<rparr>)
        (snd (snd (Level_insert sample_deps (Level_init sample_deps) sample_world))) =
      (Inl FileExistsError, (Level_init sample_deps)\<lparr>id_level := 2\<rparr>,
        snd (snd (Level_insert sample_deps (Level_init sample_deps) sample_world)))"
    by blast
  have c: "fst (Level_insert sample_deps (Level_init sample_deps) sample_world) = Inr ()"
    by (subst sample_insert) simp
  from h1 h2 a b c show ?thesis by simp
qed

text \<open>
  With an adapter that raises on the statement, \<^verbatim>\<open>Level.insert\<close> of a level without
  identifier passes the exception on: the level keeps the identifier 0 and no row is
  added.
\<close>

lemma Level_insert_adapter_raises:
  assumes "id_level l = 0" and "creator l = Some u" and "song l = SongObj s"
    and "levels_adapter d INSERT_LEVEL_MARKERS
           (insert_values l (id_user u) (id_song s) (now w)) = Inl e"
  shows "fst (Level_insert d l w) = Inl e"
    and "fst (snd (Level_insert d l w)) = l"
    and "sql_levels (snd (snd (Level_insert d l w))) = sql_levels w"
  using assms
  by (simp_all add: Level_insert_def execute_insert_level_def get_timestamp_def Let_def
      record_call_fields)

lemma strict_adapter_raises: "strict_adapter INSERT_LEVEL_MARKERS p = Inl TypeError"
  by (simp add: strict_adapter_def INSERT_LEVEL_MARKERS_def)

section \<open>Loading a payload\<close>

text \<open>
  A load with an empty instance cache and an existing file, in closed form, and the two
  measures on a run of one character.
\<close>

lemma Level_load_read:
  assumes "cache_str l = []" and "files w (dir_levels d, id_level l) = Some c"
  shows "Level_load d l w =
     (Inr (Some c), (if getsizeof d c \<le> MAX_CACHE_SIZE then l\<lparr>cache_str := c\<rparr> else l),
      record_call (FileRead (dir_levels d, id_level l))
        (record_call (PathExists (dir_levels d, id_level l)) w))"
  using assms
  by (simp add: Level_load_def path_def read_file_def record_call_fields Let_def)

lemma list_all_run: "list_all P (replicate n x) = (n = 0 \<or> P x)"
  by (induction n) auto

lemma sys_getsizeof_run:
  "0 < n \<Longrightarrow> sys_getsizeof (replicate n x) =
     (if (of_char x :: nat) < 128 then 49 + n else 73 + n)"
  by (simp add: sys_getsizeof_def list_all_run)

lemma encoded_size_run:
  "encoded_size (replicate n x) = n * (if (of_char x :: nat) < 128 then 1 else 2)"
  by (simp add: encoded_size_def sum_list_replicate)

text \<open>
  C7 as stated says that the payload is stored in the instance cache exactly when its
  encoded size is at most 5000. A payload of 4990 characters \<open>a\<close> has the encoded size
  4990; \<^verbatim>\<open>load()\<close> returns it and leaves the instance cache empty.
\<close>

theorem load_encoded_size_counterexample:
  "encoded_size (replicate 4990 CHR ''a'') \<le> MAX_CACHE_SIZE
   \<and> fst (Level_load (sample_deps\<lparr>getsizeof := sys_getsizeof\<rparr>)
        ((Level_init sample_deps)\<lparr>id_level := 1\<rparr>)
        (sample_world\<lparr>files := [(''levels'', 1) \<mapsto> replicate 4990 CHR ''a'']\<rparr>)) =
      Inr (Some (replicate 4990 CHR ''a''))
   \<and> cache_str (fst (snd (Level_load (sample_deps\<lparr>getsizeof := sys_getsizeof\<rparr>)
        ((Level_init sample_deps)\<lparr>id_level := 1\<rparr>)
        (sample_world\<lparr>files := [(''levels'', 1) \<mapsto> replicate 4990 CHR ''a'']\<rparr>)))) = []"
proof -
  define d where "d = sample_deps\<lparr>getsizeof := sys_getsizeof\<rparr>"
  define l where "l = (Level_init sample_deps)\<lparr>id_level := 1\<rparr>"
  define c where "c = replicate 4990 CHR ''a''"
  have dl: "dir_levels d = ''levels''" "id_level l = 1" "getsizeof d = sys_getsizeof"
    by (simp_all add: d_def l_def sample_deps_def)
  have h1: "cache_str l = []" by (simp add: l_def Level_init_def)
  have h2: "files (sample_world\<lparr>files := [(''levels'', 1) \<mapsto> c]\<rparr>)
      (dir_levels d, id_level l) = Some c" by (simp add: dl)
  have e: "encoded_size c \<le> MAX_CACHE_SIZE"
    by (simp add: c_def encoded_size_run MAX_CACHE_SIZE_def)
  have g: "\<not> getsizeof d c \<le> MAX_CACHE_SIZE"
    by (simp add: dl c_def sys_getsizeof_run MAX_CACHE_SIZE_def)
  from Level_load_read [OF h1 h2] g h1 e show ?thesis
    unfolding d_def l_def c_def by simp
qed

text \<open>
  C7, as amended. For a level that holds no cached payload and whose payload file exists,
  with \<^verbatim>\<open>sys.getsizeof\<close> as the measure, \<^verbatim>\<open>load()\<close> checks the location, reads the
  file and returns its contents; the contents are stored in the instance cache exactly
  when \<^verbatim>\<open>sys.getsizeof\<close> of them, the size of the string object, is at most 5000, and
  otherwise the level is left as it was. In that case the next \<^verbatim>\<open>load()\<close> finds the
  same situation: it checks the location and reads the file again.
\<close>

theorem load_caches_by_getsizeof:
  assumes "getsizeof d = sys_getsizeof" and "cache_str l = []"
    and "files w (dir_levels d, id_level l) = Some c"
  shows "let p = (dir_levels d, id_level l);
             w1 = record_call (FileRead p) (record_call (PathExists p) w)
         in Level_load d l w =
              (Inr (Some c),
               (if sys_getsizeof c \<le> MAX_CACHE_SIZE then l\<lparr>cache_str := c\<rparr> else l), w1)
          \<and> (MAX_CACHE_SIZE < sys_getsizeof c \<longrightarrow>
               Level_load d l w1 =
                 (Inr (Some c), l, record_call (FileRead p) (record_call (PathExists p) w1)))"
proof -
  define p where "p = (dir_levels d, id_level l)"
  define w1 where "w1 = record_call (FileRead p) (record_call (PathExists p) w)"
  have f: "files w1 (dir_levels d, id_level l) = Some c"
    using assms(3) by (simp add: w1_def record_call_fields)
  from Level_load_read [OF assms(2,3)] Level_load_read [OF assms(2) f] assms(1)
  show ?thesis
    by (simp add: Let_def p_def [symmetric] w1_def [symmetric])
qed

text \<open>
  Two payloads of 4940 characters each: the one of code points below 128 is stored in the
  instance cache, the one of the code point 233 is not, and is read again by the next
  \<^verbatim>\<open>load()\<close>.
\<close>

theorem load_caches_by_getsizeof_witness:
  "getsizeof (sample_deps\<lparr>getsizeof := sys_getsizeof\<rparr>) = sys_getsizeof
   \<and> cache_str ((Level_init sample_deps)\<lparr>id_level := 1\<rparr>) = []
   \<and> length (replicate 4940 CHR ''a'') = length (replicate 4940 (CHR 0xE9))
   \<and> cache_str (fst (snd (Level_load (sample_deps\<lparr>getsizeof := sys_getsizeof\<rparr>)
        ((Level_init sample_deps)\<lparr>id_level := 1\<rparr>)
        (sample_world\<lparr>files := [(''levels'', 1) \<mapsto> replicate 4940 CHR ''a'']\<rparr>)))) =
       replicate 4940 CHR ''a''
   \<and> MAX_CACHE_SIZE < sys_getsizeof (replicate 4940 (CHR 0xE9))
   \<and> cache_str (fst (snd (Level_load (sample_deps\<lparr>getsizeof := sys_getsizeof\<rparr>)
        ((Level_init sample_deps)\<lparr>id_level := 1\<rparr>)
        (sample_world\<lparr>files := [(''levels'', 1) \<mapsto> replicate 4940 (CHR 0xE9)]\<rparr>)))) = []
   \<and> calls (snd (snd (Level_load (sample_deps\<lparr>getsizeof := sys_getsizeof\<rparr>)
        ((Level_init sample_deps)\<lparr>id_level := 1\<rparr>)
        (record_call (FileRead (''levels'', 1)) (record_call (PathExists (''levels'', 1))
           (sample_world\<lparr>files := [(''levels'', 1) \<mapsto> replicate 4940 (CHR 0xE9)]\<rparr>)))))) =
       [PathExists (''levels'', 1), FileRead (''levels'', 1),
        PathExists (''levels'', 1), FileRead (''levels'', 1)]"
proof -
  define d where "d = sample_deps\<lparr>getsizeof := sys_getsizeof\<rparr>"
  define l where "l = (Level_init sample_deps)\<lparr>id_level := 1\<rparr>"
  define ca where "ca = replicate 4940 CHR ''a''"
  define cb where "cb = replicate 4940 (CHR 0xE9)"
  have dl: "dir_levels d = ''levels''" "id_level l = 1"
    by (simp_all add: d_def l_def sample_deps_def)
  have h0: "getsizeof d = sys_getsizeof" by (simp add: d_def)
  have h1: "cache_str l = []" by (simp add: l_def Level_init_def)
  have ha: "files (sample_world\<lparr>files := [(''levels'', 1) \<mapsto> ca]\<rparr>)
      (dir_levels d, id_level l) = Some ca" by (simp add: dl)
  have hb: "files (sample_world\<lparr>files := [(''levels'', 1) \<mapsto> cb]\<rparr>)
      (dir_levels d, id_level l) = Some cb" by (simp add: dl)
  have small: "sys_getsizeof ca \<le> MAX_CACHE_SIZE"
    by (simp add: ca_def sys_getsizeof_run MAX_CACHE_SIZE_def)
  have large: "MAX_CACHE_SIZE < sys_getsizeof cb"
    by (simp add: cb_def sys_getsizeof_run MAX_CACHE_SIZE_def)
  have c: "calls sample_world = []" by (simp add: sample_world_def)
  from load_caches_by_getsizeof [OF h0 h1 ha] small
  have a: "cache_str (fst (snd (Level_load d l
        (sample_world\<lparr>files := [(''levels'', 1) \<mapsto> ca]\<rparr>)))) = ca"
    by (simp add: Let_def)
  from load_caches_by_getsizeof [OF h0 h1 hb] large h1
  have b: "cache_str (fst (snd (Level_load d l
        (sample_world\<lparr>files := [(''levels'', 1) \<mapsto> cb]\<rparr>)))) = []"
    "calls (snd (snd (Level_load d l
        (record_call (FileRead (''levels'', 1)) (record_call (PathExists (''levels'', 1))
           (sample_world\<lparr>files := [(''levels'', 1) \<mapsto> cb]\<rparr>)))))) =
       [PathExists (''levels'', 1), FileRead (''levels'', 1),
        PathExists (''levels'', 1), FileRead (''levels'', 1)]"
    by (simp_all add: Let_def dl record_call_fields c)
  from h0 h1 a b large show ?thesis
    unfolding d_def l_def ca_def cb_def by simp
qed

section \<open>Malformed catalogue responses and the empty song\<close>

text \<open>
  C8. For a song identifier that is not 0, is absent from the cache and from the store,
  and whose catalogue response is numeric or empty, \<^verbatim>\<open>Song.from_id\<close> returns
  \<^verbatim>\<open>None\<close> without raising. It makes one catalogue request, reports the error with
  the identifier and the response body with \<^verbatim>\<open>debug\<close>; nothing but the record of
  calls changes.
\<close>

theorem song_from_id_malformed_response:
  assumes "sid \<noteq> 0" and "song_cache w sid = None"
    and "find (\<lambda>r. fst r = sid) (sql_songs w) = None"
    and "is_numeric d (boomlings w sid) \<or> boomlings w sid = []"
  shows "Song_from_id d sid w =
     (Inr None,
      w\<lparr>calls := calls w @
          [CacheGet_song sid, Fetchone_songs sid, PostRequest sid, LogError sid,
           LogDebug (boomlings w sid)]\<rparr>)"
proof -
  define w1 where "w1 = record_call (CacheGet_song sid) w"
  define w2 where "w2 = record_call (Fetchone_songs sid) w1"
  have c: "song_cache_get sid w = (None, w1)"
    using assms(2) by (simp add: song_cache_get_def w1_def)
  have q: "Song_from_sql sid w1 = (None, w2)"
    using assms(3) by (simp add: Song_from_sql_def fetchone_songs_def record_call_fields w1_def w2_def)
  have bw: "boomlings w2 = boomlings w" by (simp add: w1_def w2_def record_call_fields)
  have b: "Song_from_boomlings d sid w2 =
      (Inr None, log_debug (boomlings w sid) (log_error sid (record_call (PostRequest sid) w2)))"
    using assms(4) by (simp add: Song_from_boomlings_def post_request_def bw)
  have "Song_from_id d sid w =
      (Inr None, log_debug (boomlings w sid) (log_error sid (record_call (PostRequest sid) w2)))"
    using assms(1) c q b by (simp add: Song_from_id_def)
  then show ?thesis
    by (simp add: log_debug_def log_error_def record_call_def w1_def w2_def)
qed

theorem song_from_id_malformed_response_witness:
  "(8::int) \<noteq> 0 \<and> song_cache sample_world 8 = None
   \<and> find (\<lambda>r. fst r = 8) (sql_songs sample_world) = None
   \<and> boomlings sample_world 8 = ''-1'' \<and> is_numeric sample_deps ''-1''
   \<and> boomlings (sample_world\<lparr>boomlings := \<lambda>k. []\<rparr>) 8 = []
   \<and> Song_from_id sample_deps 8 sample_world =
       (Inr None,
        sample_world\<lparr>calls := [CacheGet_song 8, Fetchone_songs 8, PostRequest 8, LogError 8,
                                LogDebug ''-1'']\<rparr>)
   \<and> Song_from_id sample_deps 8 (sample_world\<lparr>boomlings := \<lambda>k. []\<rparr>) =
       (Inr None,
        sample_world\<lparr>boomlings := \<lambda>k. [],
                      calls := [CacheGet_song 8, Fetchone_songs 8, PostRequest 8, LogError 8,
                                LogDebug []]\<rparr>)"
proof -
  have h1: "(8::int) \<noteq> 0" by simp
  have h2: "song_cache sample_world 8 = None"
    "song_cache (sample_world\<lparr>boomlings := \<lambda>k. []\<rparr>) 8 = None"
    by (simp_all add: sample_world_def)
  have h3: "find (\<lambda>r. fst r = 8) (sql_songs sample_world) = None"
    "find (\<lambda>r. fst r = 8) (sql_songs (sample_world\<lparr>boomlings := \<lambda>k. []\<rparr>)) = None"
    by (simp_all add: sample_world_def)
  have b: "boomlings sample_world 8 = ''-1''" by (simp add: sample_world_def)
  have n: "is_numeric sample_deps ''-1''" by (simp add: sample_deps_def)
  have h4: "is_numeric sample_deps (boomlings sample_world 8) \<or> boomlings sample_world 8 = []"
    using b n by simp
  have h5: "is_numeric sample_deps (boomlings (sample_world\<lparr>boomlings := \<lambda>k. []\<rparr>) 8)
      \<or> boomlings (sample_world\<lparr>boomlings := \<lambda>k. []\<rparr>) 8 = []"
    by simp
  have c: "calls sample_world = []" by (simp add: sample_world_def)
  from song_from_id_malformed_response [OF h1 h2(1) h3(1) h4]
    song_from_id_malformed_response [OF h1 h2(2) h3(2) h5]
    h2 h3 b n c
  show ?thesis by simp
qed

text \<open>
  C9. For the identifier 0, \<^verbatim>\<open>Song.from_id\<close> returns a new placeholder song and
  leaves everything as it was: no call to the cache, the store or the catalogue is made.
\<close>

theorem song_from_id_zero:
  "Song_from_id d 0 w = (Inr (Some Song_init), w)"
  by (simp add: Song_from_id_def)

text \<open>
  C10. A newly constructed song carries the identifier \<open>-1\<close>, and this is the song
  \<^verbatim>\<open>Song.from_id\<close> returns for the identifier 0. Resolving the identifier of that
  placeholder does not take the shortcut: it starts with a cache lookup for \<open>-1\<close>. A new
  level holds the placeholder as its song, and \<^verbatim>\<open>Level.insert\<close> of it hands the
  statement to the store with \<open>-1\<close> as the value for \<^verbatim>\<open>song_id\<close>, whatever the store
  then does with the statement.
\<close>

theorem placeholder_song_sentinel:
  "id_song Song_init = - 1
   \<and> fst (Song_from_id d 0 w) = Inr (Some Song_init)
   \<and> (\<exists>es. calls (snd (Song_from_id d (id_song Song_init) w)) =
          calls w @ CacheGet_song (- 1) # es)
   \<and> (\<exists>p. calls (snd (snd (Level_insert d (Level_init d) w))) =
          calls w @ [Execute_insert_level INSERT_LEVEL_MARKERS p]
        \<and> p_song_id p = - 1)"
proof -
  have a: "id_song Song_init = - 1" by (simp add: Song_init_def)
  have b: "fst (Song_from_id d 0 w) = Inr (Some Song_init)" by (simp add: Song_from_id_def)
  obtain r w' where o: "Song_from_id d (- 1) w = (r, w')" by (cases "Song_from_id d (- 1) w")
  from Song_from_id_first_call [OF _ o]
  have c: "\<exists>es. calls (snd (Song_from_id d (id_song Song_init) w)) =
          calls w @ CacheGet_song (- 1) # es"
    by (simp add: a o)
  define p where "p = insert_values (Level_init d) (id_user (User_new d)) (- 1) (now w)"
  have i: "id_level (Level_init d) = 0" "creator (Level_init d) = Some (User_new d)"
    "song (Level_init d) = SongObj Song_init"
    by (simp_all add: Level_init_def)
  have e: "calls (snd (snd (Level_insert d (Level_init d) w))) =
          calls w @ [Execute_insert_level INSERT_LEVEL_MARKERS p]"
    by (cases "levels_adapter d INSERT_LEVEL_MARKERS p")
       (simp_all add: Level_insert_def execute_insert_level_def get_timestamp_def Let_def a i
          p_def [symmetric] record_call_fields)
  have f: "p_song_id p = - 1" by (simp add: p_def insert_values_def)
  from a b c e f show ?thesis by blast
qed

end
